theory Spec2Isabelle
  imports Main "HOL-Library.Word"
begin

section \<open>JavaScript values\<close>

text \<open>
  The draft of the database modal is a plain JavaScript object. The reducer stores
  whatever value an action carries under whatever key the action names
  (\<^verbatim>\<open>[action.payload.name]: ...\<close>), so the embedding keeps the values dynamic:
  a draft is a finite map from property names to JavaScript values, and the type
  \<^verbatim>\<open>Partial<DatabaseObject> | null\<close> is an \<open>option\<close> of such a map (\<open>None\<close> is
  \<^verbatim>\<open>null\<close>).

  A JavaScript string is a sequence of 16-bit code units. Numbers are restricted to
  the integers (identifiers are integers; \<^verbatim>\<open>NaN\<close> is not represented).
\<close>

type_synonym code_unit = "16 word"

type_synonym jsstring = "code_unit list"

definition js :: "string \<Rightarrow> jsstring" where
  "js s = map of_char s"

datatype jsval =
    JUndefined
  | JNull
  | JBool bool
  | JNum int
  | JStr jsstring
  | JObj "(jsstring \<times> jsval) list"

type_synonym jsobj = "jsstring \<rightharpoonup> jsval"

text \<open>\<^verbatim>\<open>ToBoolean\<close>: what \<^verbatim>\<open>!\<close>, \<^verbatim>\<open>&&\<close>, \<^verbatim>\<open>||\<close> and \<^verbatim>\<open>if\<close> test.\<close>

fun truthy :: "jsval \<Rightarrow> bool" where
  "truthy JUndefined = False"
| "truthy JNull = False"
| "truthy (JBool b) = b"
| "truthy (JNum n) = (n \<noteq> 0)"
| "truthy (JStr s) = (s \<noteq> [])"
| "truthy (JObj fs) = True"

definition js_or :: "jsval \<Rightarrow> jsval \<Rightarrow> jsval" where
  "js_or a b = (if truthy a then a else b)"

definition js_and :: "jsval \<Rightarrow> jsval \<Rightarrow> jsval" where
  "js_and a b = (if truthy a then b else a)"

text \<open>
  \<^verbatim>\<open>String.prototype.trim\<close> removes the code units of the productions WhiteSpace and
  LineTerminator of ECMAScript from both ends.
\<close>

definition isWhiteSpace :: "code_unit \<Rightarrow> bool" where
  "isWhiteSpace c = (c \<in> set
     [0x0009, 0x000A, 0x000B, 0x000C, 0x000D, 0x0020, 0x00A0, 0x1680,
      0x2000, 0x2001, 0x2002, 0x2003, 0x2004, 0x2005, 0x2006, 0x2007,
      0x2008, 0x2009, 0x200A, 0x2028, 0x2029, 0x202F, 0x205F, 0x3000, 0xFEFF])"

definition trim :: "jsstring \<Rightarrow> jsstring" where
  "trim s = rev (dropWhile isWhiteSpace (rev (dropWhile isWhiteSpace s)))"

datatype error = TypeError

text \<open>
  \<^verbatim>\<open>v?.trim()\<close>: \<^verbatim>\<open>undefined\<close> when \<open>v\<close> is nullish, the trimmed string when \<open>v\<close> is a
  string. Any other value of this embedding has no callable \<^verbatim>\<open>trim\<close> property, and the
  call raises \<^verbatim>\<open>TypeError\<close>.
\<close>

fun trim_call :: "jsval \<Rightarrow> error + jsval" where
  "trim_call JUndefined = Inr JUndefined"
| "trim_call JNull = Inr JUndefined"
| "trim_call (JStr s) = Inr (JStr (trim s))"
| "trim_call (JBool b) = Inl TypeError"
| "trim_call (JNum n) = Inl TypeError"
| "trim_call (JObj fs) = Inl TypeError"

text \<open>\<^verbatim>\<open>o?.k\<close>: \<^verbatim>\<open>undefined\<close> on \<^verbatim>\<open>null\<close> and on a missing property.\<close>

definition get :: "jsobj option \<Rightarrow> jsstring \<Rightarrow> jsval" where
  "get ob k = (case ob of None \<Rightarrow> JUndefined
               | Some m \<Rightarrow> (case m k of None \<Rightarrow> JUndefined | Some v \<Rightarrow> v))"

text \<open>\<^verbatim>\<open>...(o || {})\<close>: the own properties of \<open>o\<close>, none for \<^verbatim>\<open>null\<close>.\<close>

definition spread :: "jsobj option \<Rightarrow> jsobj" where
  "spread ob = (case ob of None \<Rightarrow> Map.empty | Some m \<Rightarrow> m)"

subsection \<open>Property names of \<^verbatim>\<open>DatabaseObject\<close> that the modal reads\<close>

definition database_name :: jsstring where
  "database_name = js ''database_name''"

definition sqlalchemy_uri :: jsstring where
  "sqlalchemy_uri = js ''sqlalchemy_uri''"

definition impersonate_user :: jsstring where
  "impersonate_user = js ''impersonate_user''"

definition extra :: jsstring where
  "extra = js ''extra''"

definition encrypted_extra :: jsstring where
  "encrypted_extra = js ''encrypted_extra''"

definition server_cert :: jsstring where
  "server_cert = js ''server_cert''"

definition id_key :: jsstring where
  "id_key = js ''id''"

section \<open>The draft reducer\<close>

text \<open>
  \<^verbatim>\<open>DBReducerPayloadType\<close>. An optional field is an \<open>option\<close>; \<^verbatim>\<open>json?: {}\<close> admits any
  value and is kept as a \<open>jsval\<close> (\<open>JUndefined\<close> when absent).
\<close>

record DBReducerPayloadType =
  payload_target :: "jsstring option"
  payload_name :: jsstring
  payload_json :: jsval
  payload_type :: "jsstring option"
  payload_checked :: "bool option"
  payload_value :: "jsstring option"

definition opt_str :: "jsstring option \<Rightarrow> jsval" where
  "opt_str v = (case v of None \<Rightarrow> JUndefined | Some s \<Rightarrow> JStr s)"

definition opt_bool :: "bool option \<Rightarrow> jsval" where
  "opt_bool v = (case v of None \<Rightarrow> JUndefined | Some b \<Rightarrow> JBool b)"

text \<open>
  \<^verbatim>\<open>DBReducerActionType\<close>: the tagged union over \<^verbatim>\<open>ActionType\<close>, one constructor for each
  member of the enumeration with the payload its variant carries. \<open>unlisted\<close> stands
  for an action whose tag is none of the six (\<^verbatim>\<open>onChange\<close> forwards a tag of type
  \<^verbatim>\<open>any\<close>); the \<^verbatim>\<open>switch\<close> sends it to its \<^verbatim>\<open>default\<close> label.
\<close>

datatype DBReducerActionType =
    textChange DBReducerPayloadType
  | inputChange DBReducerPayloadType
  | editorChange DBReducerPayloadType
  | fetched jsobj
  | initialLoad jsobj
  | reset
  | unlisted

text \<open>
  The object literal \<^verbatim>\<open>trimmedState\<close> at the head of \<^verbatim>\<open>dbReducer\<close>. It is evaluated
  before the \<^verbatim>\<open>switch\<close>, for every action.
\<close>

definition trimmedState :: "jsobj option \<Rightarrow> error + jsobj" where
  "trimmedState state =
     (case trim_call (get state database_name) of
        Inl e \<Rightarrow> Inl e
      | Inr n \<Rightarrow> Inr ((spread state)
          (database_name \<mapsto> js_or n (JStr []),
           sqlalchemy_uri \<mapsto> js_or (get state sqlalchemy_uri) (JStr []))))"

definition dbReducer :: "jsobj option \<Rightarrow> DBReducerActionType \<Rightarrow> error + jsobj option" where
  "dbReducer state action =
     (case trimmedState state of
        Inl e \<Rightarrow> Inl e
      | Inr ts \<Rightarrow>
          (case action of
             inputChange p \<Rightarrow>
               if payload_type p = Some (js ''checkbox'')
               then Inr (Some (ts(payload_name p \<mapsto> opt_bool (payload_checked p))))
               else Inr (Some (ts(payload_name p \<mapsto> opt_str (payload_value p))))
           | editorChange p \<Rightarrow> Inr (Some (ts(payload_name p \<mapsto> payload_json p)))
           | textChange p \<Rightarrow> Inr (Some (ts(payload_name p \<mapsto> opt_str (payload_value p))))
           | initialLoad pl \<Rightarrow> Inr (Some (ts ++ pl))
           | fetched pl \<Rightarrow> Inr (Some (ts ++ pl))
           | reset \<Rightarrow> Inr (Some Map.empty)
           | unlisted \<Rightarrow> Inr (Some Map.empty)))"

text \<open>
  React applies the reducer to the current draft once for each dispatched action, in
  the order of the dispatches.
\<close>

fun dispatch_all :: "jsobj option \<Rightarrow> DBReducerActionType list \<Rightarrow> error + jsobj option" where
  "dispatch_all db [] = Inr db"
| "dispatch_all db (a # as) =
     (case dbReducer db a of Inl e \<Rightarrow> Inl e | Inr db' \<Rightarrow> dispatch_all db' as)"

section \<open>The modal component\<close>

text \<open>
  The props of \<^verbatim>\<open>DatabaseModal\<close> that its logic reads. \<open>onDatabaseAdd\<close> tells whether
  the optional callback was supplied; \<open>database\<close> is the prop after its default
  (\<^verbatim>\<open>null\<close>) has been applied.
\<close>

record DatabaseModalProps =
  onDatabaseAdd :: bool
  show_prop :: bool
  database :: "jsobj option"

text \<open>The object literal \<^verbatim>\<open>connection\<close> of \<^verbatim>\<open>testConnection\<close>.\<close>

record connection =
  conn_sqlalchemy_uri :: jsval
  conn_database_name :: jsval
  conn_impersonate_user :: jsval
  conn_extra :: jsval
  conn_encrypted_extra :: jsval
  conn_server_cert :: jsval

text \<open>
  The handlers of the component do not compute values: they call collaborators. A
  handler is embedded as the list of the calls it makes, in program order.
  \<open>SetDB\<close> is a dispatch to the draft reducer.
\<close>

datatype call =
    AddDangerToast jsstring
  | TestDatabaseConnection connection
  | FetchResource jsval
  | UpdateResource jsval jsobj
  | CreateResource jsobj
  | OnDatabaseAdd
  | OnHide
  | SetDB DBReducerActionType
  | SetTabKey jsstring

fun dispatched :: "call list \<Rightarrow> DBReducerActionType list" where
  "dispatched [] = []"
| "dispatched (SetDB a # cs) = a # dispatched cs"
| "dispatched (c # cs) = dispatched cs"

text \<open>The draft after the dispatches among the calls have gone through the reducer.\<close>

definition run_calls :: "jsobj option \<Rightarrow> call list \<Rightarrow> error + jsobj option" where
  "run_calls db cs = dispatch_all db (dispatched cs)"


definition isEditMode :: "DatabaseModalProps \<Rightarrow> bool" where
  "isEditMode props = (database props \<noteq> None)"

text \<open>
  \<^verbatim>\<open>testConnection\<close>. The toast carries the text handed to the translation function
  \<^verbatim>\<open>t\<close>.
\<close>

definition testConnection :: "jsobj option \<Rightarrow> error + call list" where
  "testConnection db =
     (if \<not> truthy (get db sqlalchemy_uri)
      then Inr [AddDangerToast (js ''Please enter a SQLAlchemy URI to test'')]
      else
        (case trim_call (get db database_name) of
           Inl e \<Rightarrow> Inl e
         | Inr n \<Rightarrow> Inr [TestDatabaseConnection
             \<lparr>conn_sqlalchemy_uri = js_or (get db sqlalchemy_uri) (JStr []),
              conn_database_name = js_or n JUndefined,
              conn_impersonate_user = js_or (get db impersonate_user) JUndefined,
              conn_extra = js_or (get db extra) JUndefined,
              conn_encrypted_extra = js_or (get db encrypted_extra) JUndefined,
              conn_server_cert = js_or (get db server_cert) JUndefined\<rparr>]))"

definition onClose :: "call list" where
  "onClose = [SetDB reset, OnHide]"

text \<open>
  \<^verbatim>\<open>onSave\<close>, up to the call of the resource client. The create branch assigns to
  \<^verbatim>\<open>db.database_name\<close> in place, so the handler returns the draft as well.
\<close>

definition onSave :: "DatabaseModalProps \<Rightarrow> jsobj option \<Rightarrow> error + (jsobj option \<times> call list)" where
  "onSave props db =
     (if isEditMode props
      then
        (let update = (spread db)(id_key := None)
         in if truthy (get db id_key)
            then Inr (db, [UpdateResource (get db id_key) update])
            else Inr (db, []))
      else
        (case db of
           Some d \<Rightarrow>
             (case trim_call (get db database_name) of
                Inl e \<Rightarrow> Inl e
              | Inr n \<Rightarrow> Inr (Some (d(database_name \<mapsto> n)),
                              [CreateResource (d(database_name \<mapsto> n))]))
         | None \<Rightarrow> Inr (db, [])))"

text \<open>
  How the promise of the resource client settles, and the callback that both
  branches of \<^verbatim>\<open>onSave\<close> pass to \<^verbatim>\<open>then\<close>. A rejected promise never runs it.
\<close>

datatype settled = Fulfilled jsval | Rejected

definition onSave_then :: "DatabaseModalProps \<Rightarrow> settled \<Rightarrow> call list" where
  "onSave_then props outcome =
     (case outcome of
        Fulfilled result \<Rightarrow>
          if truthy result
          then (if onDatabaseAdd props then [OnDatabaseAdd] else []) @ onClose
          else []
      | Rejected \<Rightarrow> [])"

definition disableSave :: "jsobj option \<Rightarrow> error + bool" where
  "disableSave db =
     (case trim_call (get db database_name) of
        Inl e \<Rightarrow> Inl e
      | Inr n \<Rightarrow> Inr (\<not> truthy (js_and n (get db sqlalchemy_uri))))"



text \<open>
  The effect on \<^verbatim>\<open>[dbFetched]\<close>. The payload is an object literal with four keys, each
  present whatever the fetched resource holds.
\<close>

definition effect_dbFetched :: "jsobj option \<Rightarrow> call list" where
  "effect_dbFetched dbFetched =
     (case dbFetched of
        None \<Rightarrow> []
      | Some r \<Rightarrow>
          [SetDB (fetched
             [extra \<mapsto> get dbFetched extra,
              impersonate_user \<mapsto> get dbFetched impersonate_user,
              server_cert \<mapsto> get dbFetched server_cert,
              sqlalchemy_uri \<mapsto> get dbFetched sqlalchemy_uri])])"

text \<open>
  The callbacks handed to the two forms. Each wraps \<^verbatim>\<open>onChange\<close>, which dispatches
  \<^verbatim>\<open>{ type, payload }\<close>. An input element always has a \<^verbatim>\<open>type\<close>, a \<^verbatim>\<open>name\<close>, a
  \<^verbatim>\<open>checked\<close> flag and a \<^verbatim>\<open>value\<close>; of a text area the name and the value are read.
\<close>

record HTMLInputElement =
  target_type :: jsstring
  target_name :: jsstring
  target_checked :: bool
  target_value :: jsstring

definition onInputChange :: "HTMLInputElement \<Rightarrow> call list" where
  "onInputChange target =
     [SetDB (inputChange
        \<lparr>payload_target = None,
         payload_name = target_name target,
         payload_json = JUndefined,
         payload_type = Some (target_type target),
         payload_checked = Some (target_checked target),
         payload_value = Some (target_value target)\<rparr>)]"

definition onTextChange :: "jsstring \<Rightarrow> jsstring \<Rightarrow> call list" where
  "onTextChange name_of_target value_of_target =
     [SetDB (textChange
        \<lparr>payload_target = None,
         payload_name = name_of_target,
         payload_json = JUndefined,
         payload_type = None,
         payload_checked = None,
         payload_value = Some value_of_target\<rparr>)]"

definition onEditorChange :: "jsstring \<Rightarrow> jsval \<Rightarrow> call list" where
  "onEditorChange name_of_editor json_of_editor =
     [SetDB (editorChange
        \<lparr>payload_target = None,
         payload_name = name_of_editor,
         payload_json = json_of_editor,
         payload_type = None,
         payload_checked = None,
         payload_value = None\<rparr>)]"

section \<open>Notions used to state the properties\<close>

text \<open>
  \<^verbatim>\<open>DatabaseObject\<close> declares \<^verbatim>\<open>database_name\<close> and \<^verbatim>\<open>sqlalchemy_uri\<close> as strings. A
  value conforms when it is a string or nullish (the property is optional in a
  \<^verbatim>\<open>Partial\<close>).
\<close>

fun stringish :: "jsval \<Rightarrow> bool" where
  "stringish JUndefined = True"
| "stringish JNull = True"
| "stringish (JStr s) = True"
| "stringish (JBool b) = False"
| "stringish (JNum n) = False"
| "stringish (JObj fs) = False"

definition name_is_string :: "jsobj option \<Rightarrow> bool" where
  "name_is_string db = stringish (get db database_name)"

definition uri_is_string :: "jsobj option \<Rightarrow> bool" where
  "uri_is_string db = stringish (get db sqlalchemy_uri)"

text \<open>The text of a value that conforms: the empty string when it is nullish.\<close>

fun text_of :: "jsval \<Rightarrow> jsstring" where
  "text_of (JStr s) = s"
| "text_of v = []"

text \<open>The value of \<^verbatim>\<open>v?.trim()\<close> for a value that conforms.\<close>

fun trimmed :: "jsval \<Rightarrow> jsval" where
  "trimmed (JStr s) = JStr (trim s)"
| "trimmed v = JUndefined"

definition no_outer_whitespace :: "jsstring \<Rightarrow> bool" where
  "no_outer_whitespace s =
     (if s = [] then True else \<not> isWhiteSpace (hd s) \<and> \<not> isWhiteSpace (last s))"

text \<open>One step after another, as long as neither raises.\<close>

definition and_then :: "error + 'a \<Rightarrow> ('a \<Rightarrow> error + 'b) \<Rightarrow> error + 'b" where
  "and_then r f = (case r of Inl e \<Rightarrow> Inl e | Inr x \<Rightarrow> f x)"

text \<open>Reading a property of the draft, as a step that never raises.\<close>

definition read_property :: "jsstring \<Rightarrow> jsobj option \<Rightarrow> error + jsval" where
  "read_property k db = Inr (get db k)"

text \<open>The field-change actions, and the property name such an action writes.\<close>

fun field_change :: "DBReducerActionType \<Rightarrow> bool" where
  "field_change (textChange p) = True"
| "field_change (inputChange p) = True"
| "field_change (editorChange p) = True"
| "field_change a = False"

fun field_of :: "DBReducerActionType \<Rightarrow> jsstring" where
  "field_of (textChange p) = payload_name p"
| "field_of (inputChange p) = payload_name p"
| "field_of (editorChange p) = payload_name p"
| "field_of a = []"

text \<open>
  The value a field-change action brings: the checked flag of a checkbox, the value
  of any other input element and of a text area, the JSON of the structured editor.
\<close>

fun written_value :: "DBReducerActionType \<Rightarrow> jsval" where
  "written_value (textChange p) = opt_str (payload_value p)"
| "written_value (inputChange p) =
     (if payload_type p = Some (js ''checkbox'')
      then opt_bool (payload_checked p) else opt_str (payload_value p))"
| "written_value (editorChange p) = payload_json p"
| "written_value a = JUndefined"

text \<open>
  An action keeps the name a string when it does not store a value of another type
  under \<^verbatim>\<open>database_name\<close>.
\<close>

fun keeps_name_string :: "DBReducerActionType \<Rightarrow> bool" where
  "keeps_name_string (textChange p) = True"
| "keeps_name_string (inputChange p) =
     (if payload_name p = database_name \<and> payload_type p = Some (js ''checkbox'')
      then payload_checked p = None else True)"
| "keeps_name_string (editorChange p) =
     (if payload_name p = database_name then stringish (payload_json p) else True)"
| "keeps_name_string (fetched pl) = (case pl database_name of None \<Rightarrow> True | Some v \<Rightarrow> stringish v)"
| "keeps_name_string (initialLoad pl) = (case pl database_name of None \<Rightarrow> True | Some v \<Rightarrow> stringish v)"
| "keeps_name_string reset = True"
| "keeps_name_string unlisted = True"

section \<open>Strings and property names\<close>

lemma unat_of_char: "unat (of_char c :: 16 word) = of_char c"
proof -
  have "(of_char c :: nat) < 256" by (cases c) simp
  then have lt: "(of_char c :: nat) < 2 ^ 16" by (rule less_le_trans) simp
  have "unat (of_nat (of_char c) :: 16 word) = of_char c"
    using lt by (simp add: unat_of_nat)
  then show ?thesis
    by (simp only: of_nat_of_char)
qed

lemma inj_of_char_16: "inj (of_char :: char \<Rightarrow> 16 word)"
proof (rule injI)
  fix c d :: char
  assume "(of_char c :: 16 word) = of_char d"
  then have "unat (of_char c :: 16 word) = unat (of_char d :: 16 word)" by simp
  then show "c = d" by (simp only: unat_of_char of_char_eq_iff)
qed

lemma js_inject [simp]: "js a = js b \<longleftrightarrow> a = b"
  by (simp add: js_def inj_map_eq_map inj_of_char_16)

lemma js_Nil [simp]: "js [] = []" "js a = [] \<longleftrightarrow> a = []" "[] = js a \<longleftrightarrow> a = []"
  by (auto simp add: js_def)

lemmas key_defs = database_name_def sqlalchemy_uri_def impersonate_user_def extra_def
  encrypted_extra_def server_cert_def id_key_def

subsection \<open>Trimming\<close>

lemma trim_Nil [simp]: "trim [] = []"
  by (simp add: trim_def)

lemma last_dropWhile: "dropWhile P xs \<noteq> [] \<Longrightarrow> last (dropWhile P xs) = last xs"
  by (induction xs) (auto split: if_splits)

lemma trim_no_outer_whitespace: "no_outer_whitespace (trim s)"
proof (cases "trim s")
  case Nil
  then show ?thesis by (simp add: no_outer_whitespace_def)
next
  case (Cons c cs)
  define t where "t = dropWhile isWhiteSpace s"
  define u where "u = dropWhile isWhiteSpace (rev t)"
  have ts: "trim s = rev u" by (simp add: trim_def t_def u_def)
  with Cons have u: "u \<noteq> []" by auto
  then have "rev t \<noteq> []" by (auto simp add: u_def)
  then have t: "t \<noteq> []" by simp
  have "last (trim s) = hd u" using u by (simp add: ts last_rev)
  moreover have "\<not> isWhiteSpace (hd u)" using u unfolding u_def by (rule hd_dropWhile)
  moreover have "hd (trim s) = last u" using u by (simp add: ts hd_rev)
  moreover have "last u = last (rev t)" using u unfolding u_def by (rule last_dropWhile)
  moreover have "last (rev t) = hd t" using t by (simp add: last_rev)
  moreover have "\<not> isWhiteSpace (hd t)" using t unfolding t_def by (rule hd_dropWhile)
  ultimately show ?thesis by (simp add: no_outer_whitespace_def)
qed

lemma trim_fixed:
  assumes "no_outer_whitespace s"
  shows "trim s = s"
proof (cases "s = []")
  case True
  then show ?thesis by simp
next
  case False
  with assms have h: "\<not> isWhiteSpace (hd s)" and l: "\<not> isWhiteSpace (last s)"
    by (simp_all add: no_outer_whitespace_def)
  have front: "dropWhile isWhiteSpace s = s"
    using h by (simp add: dropWhile_eq_self_iff)
  have "\<not> isWhiteSpace (hd (rev s))"
    using l False by (simp add: hd_rev)
  then have "dropWhile isWhiteSpace (rev s) = rev s"
    by (simp add: dropWhile_eq_self_iff)
  with front show ?thesis by (simp add: trim_def)
qed

section \<open>The reducer on drafts whose name is a string\<close>

lemma name_is_string_None [simp]: "name_is_string None"
  by (simp add: name_is_string_def get_def)

lemma name_is_string_empty [simp]: "name_is_string (Some Map.empty)"
  by (simp add: name_is_string_def get_def)

lemma trimmedState_typed:
  assumes "name_is_string state"
  shows "trimmedState state = Inr ((spread state)
          (database_name \<mapsto> JStr (trim (text_of (get state database_name))),
           sqlalchemy_uri \<mapsto> js_or (get state sqlalchemy_uri) (JStr [])))"
  using assms
  by (cases "get state database_name")
     (auto simp add: trimmedState_def name_is_string_def js_or_def)

lemma dbReducer_typed:
  assumes "name_is_string state"
  shows "\<exists>d. dbReducer state a = Inr (Some d)"
  using assms by (cases a) (simp_all add: dbReducer_def trimmedState_typed)

lemma dbReducer_keeps_name_string:
  assumes "name_is_string state" "keeps_name_string a"
  shows "\<exists>d. dbReducer state a = Inr (Some d) \<and> name_is_string (Some d)"
  using assms
  by (cases a) (auto simp add: dbReducer_def trimmedState_typed name_is_string_def get_def
       opt_str_def opt_bool_def key_defs map_add_def js_or_def split: option.splits if_splits)

lemma dbReducer_reset_typed:
  assumes "name_is_string state"
  shows "dbReducer state reset = Inr (Some Map.empty)"
  using assms by (simp add: dbReducer_def trimmedState_typed)

text \<open>
  The component evaluates \<open>disableSave\<close> in every render, before any handler is
  attached and before any further action is dispatched. A draft whose name is not a
  string makes that render raise; the drafts that the handlers and the reducer
  receive from a rendered component are those with \<open>name_is_string\<close>.
\<close>

lemma name_is_string_iff_render:
  "name_is_string db \<longleftrightarrow> (\<exists>b. disableSave db = Inr b)"
  by (cases "get db database_name") (simp_all add: name_is_string_def disableSave_def)

lemma dbReducer_raise_seen_by_render:
  assumes "dbReducer db a = Inl e"
  shows "disableSave db = Inl e"
  using assms
  by (cases "get db database_name"; cases a; cases e)
     (simp_all add: dbReducer_def trimmedState_def disableSave_def split: if_splits)

lemma handler_raise_seen_by_render:
  assumes "testConnection db = Inl e \<or> onSave props db = Inl e"
  shows "disableSave db = Inl e"
  using assms
  by (cases "get db database_name"; cases e; cases db)
     (simp_all add: testConnection_def onSave_def disableSave_def Let_def split: if_splits)

lemma dispatch_all_append:
  "dispatch_all state (as @ bs) =
     (case dispatch_all state as of Inl e \<Rightarrow> Inl e | Inr s \<Rightarrow> dispatch_all s bs)"
  by (induction as arbitrary: state) (auto split: sum.splits)

lemma dispatch_all_keeps_name_string:
  assumes "name_is_string state" "\<forall>a \<in> set as. keeps_name_string a"
  shows "\<exists>s. dispatch_all state as = Inr s \<and> name_is_string s"
  using assms
proof (induction as arbitrary: state)
  case Nil
  then show ?case by simp
next
  case (Cons a as)
  then obtain d where d: "dbReducer state a = Inr (Some d)" "name_is_string (Some d)"
    using dbReducer_keeps_name_string [of state a] by auto
  with Cons.IH [of "Some d"] Cons.prems show ?case by simp
qed

lemma dispatched_append [simp]: "dispatched (cs @ ds) = dispatched cs @ dispatched ds"
  by (induction cs rule: dispatched.induct) simp_all

lemma dispatched_map_SetDB [simp]: "dispatched (map SetDB as) = as"
  by (induction as) simp_all


section \<open>Reset and totality\<close>

text \<open>
  C9: for every prior draft state, \<^verbatim>\<open>null\<close> included, a reset action returns the empty
  draft, which is not \<^verbatim>\<open>null\<close>, whatever the state holds. The states are those the
  reducer receives: the name is a string or nullish.
\<close>

theorem reset_returns_empty_draft:
  assumes "name_is_string state"
  shows "dbReducer state reset = Inr (Some Map.empty)"
  using assms by (simp add: dbReducer_def trimmedState_typed)

theorem reset_returns_empty_draft_witness:
  "name_is_string None \<and> dbReducer None reset = Inr (Some Map.empty)
   \<and> name_is_string (Some [database_name \<mapsto> JStr (js ''Prod''), id_key \<mapsto> JNum 7])
   \<and> dbReducer (Some [database_name \<mapsto> JStr (js ''Prod''), id_key \<mapsto> JNum 7]) reset
       = Inr (Some Map.empty)"
proof -
  have a: "name_is_string None"
    by simp
  have b: "name_is_string (Some [database_name \<mapsto> JStr (js ''Prod''), id_key \<mapsto> JNum 7])"
    by (simp add: name_is_string_def get_def key_defs)
  show ?thesis
    using a b reset_returns_empty_draft [OF a] reset_returns_empty_draft [OF b] by simp
qed

text \<open>
  C10: for every input state, the \<^verbatim>\<open>null\<close> initial state included, and for every
  action, the reducer returns an object and never \<^verbatim>\<open>null\<close>; an action whose type is
  none of the six takes the default branch and returns the empty draft, as a reset
  does. The states are those the reducer receives: the name is a string or nullish.
\<close>

theorem dbReducer_returns_object:
  assumes "name_is_string state"
  shows "(\<exists>d. dbReducer state action = Inr (Some d))
    \<and> dbReducer state unlisted = Inr (Some Map.empty)
    \<and> dbReducer state unlisted = dbReducer state reset"
  using assms dbReducer_typed [of state action]
  by (simp add: dbReducer_def trimmedState_typed)

theorem dbReducer_returns_object_witness:
  "name_is_string None
   \<and> dbReducer None (fetched [extra \<mapsto> JUndefined]) =
       Inr (Some [database_name \<mapsto> JStr [], sqlalchemy_uri \<mapsto> JStr [], extra \<mapsto> JUndefined])
   \<and> dbReducer None unlisted = Inr (Some Map.empty)
   \<and> dbReducer None unlisted = dbReducer None reset"
proof -
  have a: "name_is_string None" by simp
  have "dbReducer None (fetched [extra \<mapsto> JUndefined]) =
       Inr (Some [database_name \<mapsto> JStr [], sqlalchemy_uri \<mapsto> JStr [], extra \<mapsto> JUndefined])"
    by (simp add: dbReducer_def trimmedState_def get_def spread_def js_or_def)
  then show ?thesis
    using a dbReducer_returns_object [OF a, of "fetched [extra \<mapsto> JUndefined]"] by auto
qed

section \<open>Input-element changes\<close>

text \<open>
  C8: for every draft state, an input-element change from a checkbox stores the
  boolean checked state under the field name (never the string \<^verbatim>\<open>"true"\<close>), and any
  other input-element change stores the string value. The reducer branches on the
  type of the control nowhere else: a text change and an editor change give the same
  draft whatever type the payload carries. The states are those the reducer
  receives: the name is a string or nullish.
\<close>

theorem inputChange_stores_checked_or_value:
  assumes "name_is_string state"
  shows "\<exists>d. dbReducer state (inputChange p) = Inr (Some d)
    \<and> (payload_type p = Some (js ''checkbox'') \<and> payload_checked p = Some b
         \<longrightarrow> d (payload_name p) = Some (JBool b)
           \<and> d (payload_name p) \<noteq> Some (JStr (js ''true'')))
    \<and> (payload_type p \<noteq> Some (js ''checkbox'') \<and> payload_value p = Some v
         \<longrightarrow> d (payload_name p) = Some (JStr v))
    \<and> dbReducer state (textChange (p\<lparr>payload_type := ty\<rparr>)) = dbReducer state (textChange p)
    \<and> dbReducer state (editorChange (p\<lparr>payload_type := ty\<rparr>))
        = dbReducer state (editorChange p)"
  using assms
  by (simp add: dbReducer_def trimmedState_typed opt_bool_def opt_str_def)

theorem inputChange_stores_checked_or_value_witness:
  "name_is_string None
   \<and> dbReducer None (inputChange \<lparr>payload_target = None, payload_name = impersonate_user,
        payload_json = JUndefined, payload_type = Some (js ''checkbox''),
        payload_checked = Some True, payload_value = Some (js ''on'')\<rparr>)
      = Inr (Some [database_name \<mapsto> JStr [], sqlalchemy_uri \<mapsto> JStr [],
                   impersonate_user \<mapsto> JBool True])
   \<and> dbReducer None (inputChange \<lparr>payload_target = None, payload_name = server_cert,
        payload_json = JUndefined, payload_type = Some (js ''text''),
        payload_checked = Some False, payload_value = Some (js ''X'')\<rparr>)
      = Inr (Some [database_name \<mapsto> JStr [], sqlalchemy_uri \<mapsto> JStr [],
                   server_cert \<mapsto> JStr (js ''X'')])"
proof -
  have a: "name_is_string None" by simp
  have "dbReducer None (inputChange \<lparr>payload_target = None, payload_name = impersonate_user,
        payload_json = JUndefined, payload_type = Some (js ''checkbox''),
        payload_checked = Some True, payload_value = Some (js ''on'')\<rparr>)
      = Inr (Some [database_name \<mapsto> JStr [], sqlalchemy_uri \<mapsto> JStr [],
                   impersonate_user \<mapsto> JBool True])"
    by (simp add: dbReducer_def trimmedState_def get_def spread_def js_or_def opt_bool_def)
  moreover have "dbReducer None (inputChange \<lparr>payload_target = None, payload_name = server_cert,
        payload_json = JUndefined, payload_type = Some (js ''text''),
        payload_checked = Some False, payload_value = Some (js ''X'')\<rparr>)
      = Inr (Some [database_name \<mapsto> JStr [], sqlalchemy_uri \<mapsto> JStr [],
                   server_cert \<mapsto> JStr (js ''X'')])"
    by (simp add: dbReducer_def trimmedState_def get_def spread_def js_or_def opt_str_def)
  ultimately show ?thesis
    using a inputChange_stores_checked_or_value [OF a] by simp
qed


section \<open>The merge of the fetched details\<close>

text \<open>
  C2, as the code has it. The draft holds the name \<^verbatim>\<open>"Prod "\<close>, typed with a space at its
  end while the fetch was under way. The merge of the fetched fields changes it to
  \<^verbatim>\<open>"Prod"\<close>, although the name is none of the four fields.
\<close>

theorem fetched_merge_trims_name:
  "read_property database_name
     (Some [id_key \<mapsto> JNum 7, database_name \<mapsto> JStr (js ''Prod '')])
     = Inr (JStr (js ''Prod ''))
   \<and> and_then
     (run_calls (Some [id_key \<mapsto> JNum 7, database_name \<mapsto> JStr (js ''Prod '')])
        (effect_dbFetched
           (Some [sqlalchemy_uri \<mapsto> JStr (js ''mysql://new''),
                  impersonate_user \<mapsto> JBool True,
                  server_cert \<mapsto> JStr (js ''X'')])))
     (read_property database_name) = Inr (JStr (js ''Prod''))"
  by (simp add: and_then_def read_property_def run_calls_def effect_dbFetched_def dbReducer_def
      trimmedState_def get_def spread_def js_or_def key_defs trim_def js_def isWhiteSpace_def)

text \<open>
  C2, amended: for every draft whose name is a string or nullish and every completed
  detail fetch, the merge dispatched on completion overwrites the four designated
  fields with what the fetched record holds, replaces the name by its trimmed value
  (the empty string when there was none), and leaves every other field of the draft
  as it was. A name without leading or trailing whitespace is therefore unchanged.
\<close>

theorem fetched_merge_frame:
  assumes "name_is_string state"
  shows "\<exists>d. run_calls state (effect_dbFetched (Some r)) = Inr (Some d)
    \<and> (\<forall>k. k \<notin> {sqlalchemy_uri, impersonate_user, server_cert, extra, database_name}
          \<longrightarrow> d k = spread state k)
    \<and> d database_name = Some (JStr (trim (text_of (get state database_name))))
    \<and> (get state database_name = JStr n \<and> no_outer_whitespace n
          \<longrightarrow> d database_name = Some (JStr n))
    \<and> d sqlalchemy_uri = Some (get (Some r) sqlalchemy_uri)
    \<and> d impersonate_user = Some (get (Some r) impersonate_user)
    \<and> d server_cert = Some (get (Some r) server_cert)
    \<and> d extra = Some (get (Some r) extra)"
  using assms
  by (auto simp add: run_calls_def effect_dbFetched_def dbReducer_def trimmedState_typed
      map_add_def key_defs trim_fixed)

theorem fetched_merge_frame_witness:
  "name_is_string (Some [id_key \<mapsto> JNum 7, database_name \<mapsto> JStr (js ''Prod''),
       sqlalchemy_uri \<mapsto> JStr (js ''mysql://...'')])
   \<and> (\<exists>d. run_calls
          (Some [id_key \<mapsto> JNum 7, database_name \<mapsto> JStr (js ''Prod''),
                 sqlalchemy_uri \<mapsto> JStr (js ''mysql://...'')])
          (effect_dbFetched
             (Some [sqlalchemy_uri \<mapsto> JStr (js ''mysql://new''),
                    extra \<mapsto> JStr (js ''{}''),
                    impersonate_user \<mapsto> JBool True,
                    server_cert \<mapsto> JStr (js ''X'')])) = Inr (Some d)
        \<and> d id_key = Some (JNum 7)
        \<and> d database_name = Some (JStr (js ''Prod''))
        \<and> d sqlalchemy_uri = Some (JStr (js ''mysql://new''))
        \<and> d impersonate_user = Some (JBool True)
        \<and> d server_cert = Some (JStr (js ''X''))
        \<and> d extra = Some (JStr (js ''{}'')))"
proof -
  let ?s = "Some [id_key \<mapsto> JNum 7, database_name \<mapsto> JStr (js ''Prod''),
                  sqlalchemy_uri \<mapsto> JStr (js ''mysql://...'')]"
  let ?r = "[sqlalchemy_uri \<mapsto> JStr (js ''mysql://new''),
             extra \<mapsto> JStr (js ''{}''),
             impersonate_user \<mapsto> JBool True,
             server_cert \<mapsto> JStr (js ''X'')]"
  have a: "name_is_string ?s"
    by (simp add: name_is_string_def get_def key_defs)
  have w: "no_outer_whitespace (js ''Prod'')"
    by (simp add: no_outer_whitespace_def js_def isWhiteSpace_def)
  have g: "get ?s database_name = JStr (js ''Prod'')"
    by (simp add: get_def key_defs)
  have k: "id_key \<notin> {sqlalchemy_uri, impersonate_user, server_cert, extra, database_name}"
    by (simp add: key_defs)
  have i: "spread ?s id_key = Some (JNum 7)"
    by (simp add: spread_def key_defs)
  have f: "get (Some ?r) sqlalchemy_uri = JStr (js ''mysql://new'')"
    "get (Some ?r) impersonate_user = JBool True"
    "get (Some ?r) server_cert = JStr (js ''X'')"
    "get (Some ?r) extra = JStr (js ''{}'')"
    by (simp_all add: get_def key_defs)
  obtain d where d: "run_calls ?s (effect_dbFetched (Some ?r)) = Inr (Some d)"
    "\<forall>k. k \<notin> {sqlalchemy_uri, impersonate_user, server_cert, extra, database_name}
          \<longrightarrow> d k = spread ?s k"
    "get ?s database_name = JStr (js ''Prod'') \<and> no_outer_whitespace (js ''Prod'')
          \<longrightarrow> d database_name = Some (JStr (js ''Prod''))"
    "d sqlalchemy_uri = Some (get (Some ?r) sqlalchemy_uri)"
    "d impersonate_user = Some (get (Some ?r) impersonate_user)"
    "d server_cert = Some (get (Some ?r) server_cert)"
    "d extra = Some (get (Some ?r) extra)"
    using fetched_merge_frame [OF a, of ?r "js ''Prod''"] by blast
  from d(2) k i have "d id_key = Some (JNum 7)" by simp
  moreover from d(3) g w have "d database_name = Some (JStr (js ''Prod''))" by simp
  ultimately show ?thesis
    using a d(1,4,5,6,7) f by auto
qed

section \<open>Sequences of field changes\<close>

lemma field_change_step:
  assumes "name_is_string s" and "field_change a"
  shows "\<exists>d. dbReducer s a = Inr (Some d)
    \<and> (field_of a \<noteq> database_name \<longrightarrow>
         d database_name = Some (JStr (trim (text_of (get s database_name)))))
    \<and> (field_of a \<noteq> sqlalchemy_uri \<longrightarrow>
         d sqlalchemy_uri = Some (js_or (get s sqlalchemy_uri) (JStr [])))
    \<and> d (field_of a) = Some (written_value a)"
  using assms
  by (cases a) (auto simp add: dbReducer_def trimmedState_typed key_defs)

lemma uri_stays_unset:
  assumes "name_is_string s"
    and "\<forall>b \<in> set as. field_change b \<and> keeps_name_string b \<and> field_of b \<noteq> sqlalchemy_uri"
    and "\<not> truthy (get s sqlalchemy_uri)"
  shows "\<exists>s'. dispatch_all s as = Inr s' \<and> name_is_string s'
    \<and> \<not> truthy (get s' sqlalchemy_uri)"
  using assms
proof (induction as arbitrary: s)
  case Nil
  then show ?case by simp
next
  case (Cons a as)
  then have fa: "field_change a" "keeps_name_string a" "field_of a \<noteq> sqlalchemy_uri"
    by simp_all
  obtain d where d: "dbReducer s a = Inr (Some d)" "name_is_string (Some d)"
    using dbReducer_keeps_name_string [OF Cons.prems(1) fa(2)] by auto
  obtain d' where d': "dbReducer s a = Inr (Some d')"
    "d' sqlalchemy_uri = Some (js_or (get s sqlalchemy_uri) (JStr []))"
    using field_change_step [OF Cons.prems(1) fa(1)] fa(3) by auto
  from d(1) d'(1) have "d' = d" by simp
  with d'(2) Cons.prems(3) have "\<not> truthy (get (Some d) sqlalchemy_uri)"
    by (simp add: get_def js_or_def)
  with Cons.IH [of "Some d"] d Cons.prems(2) show ?case by simp
qed

text \<open>
  C1, as the code has it. One change of the name field to \<^verbatim>\<open>"My DB "\<close>, from the
  initial state, leaves a name with trailing whitespace in the draft: the reducer
  normalises the draft it is given, not the value the action brings. In the same way
  an editor change of \<^verbatim>\<open>sqlalchemy_uri\<close> that carries no JSON leaves the URI
  \<^verbatim>\<open>undefined\<close>.
\<close>

theorem name_change_keeps_whitespace:
  "and_then
     (run_calls None
        (onInputChange \<lparr>target_type = js ''text'', target_name = database_name,
           target_checked = False, target_value = js ''My DB ''\<rparr>))
     (read_property database_name) = Inr (JStr (js ''My DB ''))
   \<and> \<not> no_outer_whitespace (js ''My DB '')
   \<and> and_then
     (run_calls None (onEditorChange sqlalchemy_uri JUndefined))
     (read_property sqlalchemy_uri) = Inr JUndefined"
  by (simp add: and_then_def read_property_def run_calls_def onInputChange_def
      onEditorChange_def dbReducer_def trimmedState_def get_def spread_def js_or_def
      opt_str_def no_outer_whitespace_def js_def isWhiteSpace_def)

text \<open>
  C1, amended: for every draft state and every non-empty sequence of field-change
  actions, the reducer returns a draft in which the field that the last action wrote
  holds the value of that action as it came (untrimmed, and \<^verbatim>\<open>undefined\<close> when the
  action carried none); the name has no leading or trailing whitespace unless the
  last action wrote the name itself; the URI is not \<^verbatim>\<open>undefined\<close> unless the last
  action wrote the URI itself, and it is \<^verbatim>\<open>""\<close> when it was unset at the start and no
  action wrote it. The normalisation of the current draft runs before the effect of
  each action. The drafts and actions are those a rendered component meets: the
  name is a string or nullish, and stays so.
\<close>

theorem field_changes_normalise_draft:
  assumes "name_is_string state"
    and "\<forall>b \<in> set (as @ [a]). field_change b \<and> keeps_name_string b"
  shows "\<exists>d. dispatch_all state (as @ [a]) = Inr (Some d)
    \<and> d (field_of a) = Some (written_value a)
    \<and> (field_of a \<noteq> database_name \<longrightarrow>
          (\<exists>n. d database_name = Some (JStr n) \<and> no_outer_whitespace n))
    \<and> (field_of a \<noteq> sqlalchemy_uri \<longrightarrow>
          (\<exists>u. d sqlalchemy_uri = Some u \<and> u \<noteq> JUndefined))
    \<and> ((\<forall>b \<in> set (as @ [a]). field_of b \<noteq> sqlalchemy_uri)
         \<and> \<not> truthy (get state sqlalchemy_uri) \<longrightarrow> d sqlalchemy_uri = Some (JStr []))"
proof -
  from assms(2) have ks: "\<forall>b \<in> set as. keeps_name_string b" and fa: "field_change a"
    by simp_all
  obtain s where s: "dispatch_all state as = Inr s" "name_is_string s"
    using dispatch_all_keeps_name_string [OF assms(1) ks] by auto
  obtain d where d: "dbReducer s a = Inr (Some d)"
    "field_of a \<noteq> database_name \<longrightarrow>
       d database_name = Some (JStr (trim (text_of (get s database_name))))"
    "field_of a \<noteq> sqlalchemy_uri \<longrightarrow>
       d sqlalchemy_uri = Some (js_or (get s sqlalchemy_uri) (JStr []))"
    "d (field_of a) = Some (written_value a)"
    using field_change_step [OF s(2) fa] by auto
  have run: "dispatch_all state (as @ [a]) = Inr (Some d)"
    using s(1) d(1) by (simp add: dispatch_all_append)
  have name: "field_of a \<noteq> database_name \<longrightarrow>
      (\<exists>n. d database_name = Some (JStr n) \<and> no_outer_whitespace n)"
    using d(2) trim_no_outer_whitespace by blast
  have "js_or (get s sqlalchemy_uri) (JStr []) \<noteq> JUndefined"
    by (cases "get s sqlalchemy_uri") (simp_all add: js_or_def)
  with d(3) have uri: "field_of a \<noteq> sqlalchemy_uri \<longrightarrow>
      (\<exists>u. d sqlalchemy_uri = Some u \<and> u \<noteq> JUndefined)"
    by simp
  have unset: "d sqlalchemy_uri = Some (JStr [])"
    if h: "\<forall>b \<in> set (as @ [a]). field_of b \<noteq> sqlalchemy_uri"
      "\<not> truthy (get state sqlalchemy_uri)"
  proof -
    from h(1) assms(2)
    have "\<forall>b \<in> set as. field_change b \<and> keeps_name_string b \<and> field_of b \<noteq> sqlalchemy_uri"
      by simp
    then obtain s' where s': "dispatch_all state as = Inr s'"
      "\<not> truthy (get s' sqlalchemy_uri)"
      using uri_stays_unset [OF assms(1) _ h(2), of as] by auto
    with s(1) have "\<not> truthy (get s sqlalchemy_uri)" by simp
    moreover from h(1) have "field_of a \<noteq> sqlalchemy_uri" by simp
    ultimately show ?thesis using d(3) by (simp add: js_or_def)
  qed
  from run d(4) name uri unset show ?thesis by blast
qed

theorem field_changes_normalise_draft_witness:
  "name_is_string None
   \<and> field_change (textChange \<lparr>payload_target = None, payload_name = database_name,
        payload_json = JUndefined, payload_type = None, payload_checked = None,
        payload_value = Some (js '' My DB '')\<rparr>)
   \<and> field_change (editorChange \<lparr>payload_target = None, payload_name = extra,
        payload_json = JStr (js ''{}''), payload_type = None, payload_checked = None,
        payload_value = None\<rparr>)
   \<and> (\<exists>d. dispatch_all None
          ([textChange \<lparr>payload_target = None, payload_name = database_name,
              payload_json = JUndefined, payload_type = None, payload_checked = None,
              payload_value = Some (js '' My DB '')\<rparr>]
           @ [editorChange \<lparr>payload_target = None, payload_name = extra,
              payload_json = JStr (js ''{}''), payload_type = None, payload_checked = None,
              payload_value = None\<rparr>]) = Inr (Some d)
        \<and> d extra = Some (JStr (js ''{}''))
        \<and> (\<exists>n. d database_name = Some (JStr n) \<and> no_outer_whitespace n)
        \<and> d sqlalchemy_uri = Some (JStr []))"
proof -
  let ?a1 = "textChange \<lparr>payload_target = None, payload_name = database_name,
        payload_json = JUndefined, payload_type = None, payload_checked = None,
        payload_value = Some (js '' My DB '')\<rparr>"
  let ?a2 = "editorChange \<lparr>payload_target = None, payload_name = extra,
        payload_json = JStr (js ''{}''), payload_type = None, payload_checked = None,
        payload_value = None\<rparr>"
  have a: "name_is_string None" by simp
  have b: "\<forall>b \<in> set ([?a1] @ [?a2]). field_change b \<and> keeps_name_string b"
    by (simp add: key_defs)
  have c: "field_of ?a2 \<noteq> database_name" "field_of ?a2 \<noteq> sqlalchemy_uri"
    "\<forall>b \<in> set ([?a1] @ [?a2]). field_of b \<noteq> sqlalchemy_uri"
    "\<not> truthy (get None sqlalchemy_uri)"
    by (simp_all add: key_defs get_def)
  have v: "field_of ?a2 = extra" "written_value ?a2 = JStr (js ''{}'')"
    by simp_all
  show ?thesis
    using a c v field_changes_normalise_draft [OF a b] by auto
qed


section \<open>Closing the modal\<close>







section \<open>Saving\<close>

text \<open>
  C5: in edit mode, save does nothing when the draft carries no identifier (no call,
  no error, the draft as it was; \<^verbatim>\<open>db?.id\<close> is tested for truth, so an identifier
  of 0 counts as none). With an identifier it calls the update operation once, with
  the identifier and with the draft less its \<^verbatim>\<open>id\<close> property. When the update
  fulfils with a truthy result, the caller is notified through \<^verbatim>\<open>onDatabaseAdd\<close>, if
  it supplied one, and the close sequence runs; on a falsy result, and on a
  rejection, nothing is called: the modal stays open and the draft is intact.
\<close>

theorem onSave_edit_mode:
  assumes "database props \<noteq> None"
  shows "(\<not> truthy (get db id_key) \<longrightarrow> onSave props db = Inr (db, []))
    \<and> (truthy (get db id_key) \<longrightarrow>
          onSave props db =
            Inr (db, [UpdateResource (get db id_key) (spread db |` (- {id_key}))]))
    \<and> (truthy result \<longrightarrow>
          onSave_then props (Fulfilled result) =
            (if onDatabaseAdd props then [OnDatabaseAdd] else []) @ [SetDB reset, OnHide])
    \<and> (\<not> truthy result \<longrightarrow> onSave_then props (Fulfilled result) = [])
    \<and> onSave_then props Rejected = []"
proof -
  have "(spread db)(id_key := None) = spread db |` (- {id_key})"
    by (rule ext) (simp add: restrict_map_def)
  then show ?thesis
    using assms by (simp add: onSave_def isEditMode_def onSave_then_def onClose_def Let_def)
qed

theorem onSave_edit_mode_witness:
  "database \<lparr>onDatabaseAdd = True, show_prop = True,
       database = Some [id_key \<mapsto> JNum 7]\<rparr> \<noteq> None
   \<and> truthy (get (Some [id_key \<mapsto> JNum 7, database_name \<mapsto> JStr (js ''Prod'')]) id_key)
   \<and> onSave \<lparr>onDatabaseAdd = True, show_prop = True, database = Some [id_key \<mapsto> JNum 7]\<rparr>
        (Some [id_key \<mapsto> JNum 7, database_name \<mapsto> JStr (js ''Prod'')])
      = Inr (Some [id_key \<mapsto> JNum 7, database_name \<mapsto> JStr (js ''Prod'')],
             [UpdateResource (JNum 7)
                ([id_key \<mapsto> JNum 7, database_name \<mapsto> JStr (js ''Prod'')] |` (- {id_key}))])
   \<and> \<not> truthy (get (Some [database_name \<mapsto> JStr (js ''Prod'')]) id_key)
   \<and> onSave \<lparr>onDatabaseAdd = True, show_prop = True, database = Some [id_key \<mapsto> JNum 7]\<rparr>
        (Some [database_name \<mapsto> JStr (js ''Prod'')])
      = Inr (Some [database_name \<mapsto> JStr (js ''Prod'')], [])
   \<and> truthy (JBool True)
   \<and> onSave_then \<lparr>onDatabaseAdd = True, show_prop = True,
        database = Some [id_key \<mapsto> JNum 7]\<rparr> (Fulfilled (JBool True))
      = [OnDatabaseAdd, SetDB reset, OnHide]
   \<and> \<not> truthy JUndefined
   \<and> onSave_then \<lparr>onDatabaseAdd = True, show_prop = True,
        database = Some [id_key \<mapsto> JNum 7]\<rparr> (Fulfilled JUndefined) = []"
proof -
  let ?props = "\<lparr>onDatabaseAdd = True, show_prop = True, database = Some [id_key \<mapsto> JNum 7]\<rparr>"
  have e: "database ?props \<noteq> None" by simp
  have a: "truthy (get (Some [id_key \<mapsto> JNum 7, database_name \<mapsto> JStr (js ''Prod'')]) id_key)"
    by (simp add: get_def key_defs)
  have b: "\<not> truthy (get (Some [database_name \<mapsto> JStr (js ''Prod'')]) id_key)"
    by (simp add: get_def key_defs)
  show ?thesis
    using e a b
      onSave_edit_mode [OF e,
        of "Some [id_key \<mapsto> JNum 7, database_name \<mapsto> JStr (js ''Prod'')]" "JBool True"]
      onSave_edit_mode [OF e, of "Some [database_name \<mapsto> JStr (js ''Prod'')]" JUndefined]
    by (simp add: spread_def get_def key_defs)
qed


lemma trim_call_typed:
  assumes "name_is_string db"
  shows "trim_call (get db database_name) = Inr (trimmed (get db database_name))"
  using assms by (cases "get db database_name") (simp_all add: name_is_string_def)

lemma name_is_string_trimmed:
  "name_is_string (Some (d(database_name \<mapsto> trimmed v)))"
  by (cases v) (simp_all add: name_is_string_def get_def)

text \<open>
  C6: for every non-null draft in create mode, save first trims the name of the
  draft in place, then calls the create operation once with that draft. When the
  creation fulfils with a truthy identifier, the caller is notified through
  \<^verbatim>\<open>onDatabaseAdd\<close>, if it supplied one, then the close sequence runs and its reset
  leaves the draft empty; on a falsy result nothing is called and the modal stays
  open. The drafts are those a rendered component holds: the name is a string or
  nullish.
\<close>

theorem onSave_create_mode:
  assumes "database props = None" and "name_is_string (Some d)"
  shows "onSave props (Some d) =
      Inr (Some (d(database_name \<mapsto> trimmed (get (Some d) database_name))),
           [CreateResource (d(database_name \<mapsto> trimmed (get (Some d) database_name)))])
    \<and> (truthy result \<longrightarrow>
          onSave_then props (Fulfilled result) =
            (if onDatabaseAdd props then [OnDatabaseAdd] else []) @ [SetDB reset, OnHide]
          \<and> run_calls (Some (d(database_name \<mapsto> trimmed (get (Some d) database_name))))
               (onSave_then props (Fulfilled result)) = Inr (Some Map.empty))
    \<and> (\<not> truthy result \<longrightarrow> onSave_then props (Fulfilled result) = [])"
proof -
  have "run_calls (Some (d(database_name \<mapsto> trimmed (get (Some d) database_name))))
          ((if onDatabaseAdd props then [OnDatabaseAdd] else []) @ [SetDB reset, OnHide])
        = Inr (Some Map.empty)"
    by (simp add: run_calls_def dbReducer_reset_typed name_is_string_trimmed)
  then show ?thesis
    using assms
    by (simp add: onSave_def isEditMode_def onSave_then_def onClose_def trim_call_typed)
qed

theorem onSave_create_mode_witness:
  "database \<lparr>onDatabaseAdd = True, show_prop = True, database = None\<rparr> = None
   \<and> name_is_string (Some [database_name \<mapsto> JStr (js '' My DB ''),
         sqlalchemy_uri \<mapsto> JStr (js ''postgresql://u:p@host/db'')])
   \<and> onSave \<lparr>onDatabaseAdd = True, show_prop = True, database = None\<rparr>
        (Some [database_name \<mapsto> JStr (js '' My DB ''),
               sqlalchemy_uri \<mapsto> JStr (js ''postgresql://u:p@host/db'')])
      = Inr (Some ([database_name \<mapsto> JStr (js '' My DB ''),
                    sqlalchemy_uri \<mapsto> JStr (js ''postgresql://u:p@host/db'')]
                   (database_name \<mapsto> JStr (js ''My DB''))),
             [CreateResource
                ([database_name \<mapsto> JStr (js '' My DB ''),
                  sqlalchemy_uri \<mapsto> JStr (js ''postgresql://u:p@host/db'')]
                 (database_name \<mapsto> JStr (js ''My DB'')))])
   \<and> truthy (JNum 12)
   \<and> onSave_then \<lparr>onDatabaseAdd = True, show_prop = True, database = None\<rparr>
        (Fulfilled (JNum 12)) = [OnDatabaseAdd, SetDB reset, OnHide]
   \<and> run_calls
        (Some ([database_name \<mapsto> JStr (js '' My DB ''),
                sqlalchemy_uri \<mapsto> JStr (js ''postgresql://u:p@host/db'')]
               (database_name \<mapsto> JStr (js ''My DB''))))
        (onSave_then \<lparr>onDatabaseAdd = True, show_prop = True, database = None\<rparr>
           (Fulfilled (JNum 12))) = Inr (Some Map.empty)
   \<and> \<not> truthy JNull
   \<and> onSave_then \<lparr>onDatabaseAdd = True, show_prop = True, database = None\<rparr>
        (Fulfilled JNull) = []"
proof -
  let ?props = "\<lparr>onDatabaseAdd = True, show_prop = True, database = None\<rparr>"
  let ?d = "[database_name \<mapsto> JStr (js '' My DB ''),
             sqlalchemy_uri \<mapsto> JStr (js ''postgresql://u:p@host/db'')]"
  have c: "database ?props = None" by simp
  have n: "name_is_string (Some ?d)"
    by (simp add: name_is_string_def get_def key_defs)
  have g: "get (Some ?d) database_name = JStr (js '' My DB '')"
    by (simp add: get_def key_defs)
  have t: "trim (js '' My DB '') = js ''My DB''"
    by (simp add: trim_def js_def isWhiteSpace_def)
  show ?thesis
    using c n onSave_create_mode [OF c n, of "JNum 12"] onSave_create_mode [OF c n, of JNull]
    by (auto simp add: g t)
qed

section \<open>Testing the connection\<close>

text \<open>
  C4: for every draft, \<^verbatim>\<open>testConnection\<close> with a falsy URI (empty, absent, \<^verbatim>\<open>null\<close>, or
  no draft at all) raises the one error toast and does not call the tester. With a
  non-empty URI it calls the tester exactly once and calls nothing else; the payload
  holds the URI, the trimmed name, the impersonation flag, the extra, the encrypted
  extra and the server certificate of the draft, each of the five optional ones
  replaced by \<^verbatim>\<open>undefined\<close> when it is falsy. The drafts are those a rendered
  component holds: the name is a string or nullish.
\<close>

theorem testConnection_calls:
  "(\<not> truthy (get db sqlalchemy_uri) \<longrightarrow>
      testConnection db = Inr [AddDangerToast (js ''Please enter a SQLAlchemy URI to test'')])
   \<and> (truthy (get db sqlalchemy_uri) \<and> name_is_string db \<longrightarrow>
      testConnection db = Inr [TestDatabaseConnection
        \<lparr>conn_sqlalchemy_uri = get db sqlalchemy_uri,
         conn_database_name =
           (if trim (text_of (get db database_name)) = [] then JUndefined
            else JStr (trim (text_of (get db database_name)))),
         conn_impersonate_user =
           (if truthy (get db impersonate_user) then get db impersonate_user else JUndefined),
         conn_extra = (if truthy (get db extra) then get db extra else JUndefined),
         conn_encrypted_extra =
           (if truthy (get db encrypted_extra) then get db encrypted_extra else JUndefined),
         conn_server_cert =
           (if truthy (get db server_cert) then get db server_cert else JUndefined)\<rparr>])"
proof (cases "get db database_name")
  case (JStr s)
  then show ?thesis
    by (simp add: testConnection_def name_is_string_def js_or_def)
qed (simp_all add: testConnection_def name_is_string_def js_or_def)

theorem testConnection_calls_witness:
  "\<not> truthy (get (Some [sqlalchemy_uri \<mapsto> JStr []]) sqlalchemy_uri)
   \<and> testConnection (Some [sqlalchemy_uri \<mapsto> JStr []])
       = Inr [AddDangerToast (js ''Please enter a SQLAlchemy URI to test'')]
   \<and> \<not> truthy (get None sqlalchemy_uri)
   \<and> testConnection None
       = Inr [AddDangerToast (js ''Please enter a SQLAlchemy URI to test'')]
   \<and> truthy (get (Some [sqlalchemy_uri \<mapsto> JStr (js ''mysql://host/db''),
                        database_name \<mapsto> JStr (js ''Prod ''),
                        impersonate_user \<mapsto> JBool False,
                        server_cert \<mapsto> JStr []]) sqlalchemy_uri)
   \<and> name_is_string (Some [sqlalchemy_uri \<mapsto> JStr (js ''mysql://host/db''),
                        database_name \<mapsto> JStr (js ''Prod ''),
                        impersonate_user \<mapsto> JBool False,
                        server_cert \<mapsto> JStr []])
   \<and> testConnection (Some [sqlalchemy_uri \<mapsto> JStr (js ''mysql://host/db''),
                        database_name \<mapsto> JStr (js ''Prod ''),
                        impersonate_user \<mapsto> JBool False,
                        server_cert \<mapsto> JStr []])
       = Inr [TestDatabaseConnection
           \<lparr>conn_sqlalchemy_uri = JStr (js ''mysql://host/db''),
            conn_database_name = JStr (js ''Prod''),
            conn_impersonate_user = JUndefined,
            conn_extra = JUndefined,
            conn_encrypted_extra = JUndefined,
            conn_server_cert = JUndefined\<rparr>]"
proof -
  let ?d = "Some [sqlalchemy_uri \<mapsto> JStr (js ''mysql://host/db''),
                  database_name \<mapsto> JStr (js ''Prod ''),
                  impersonate_user \<mapsto> JBool False,
                  server_cert \<mapsto> JStr []]"
  have g: "get ?d sqlalchemy_uri = JStr (js ''mysql://host/db'')"
    "get ?d database_name = JStr (js ''Prod '')"
    "get ?d impersonate_user = JBool False"
    "get ?d extra = JUndefined"
    "get ?d encrypted_extra = JUndefined"
    "get ?d server_cert = JStr []"
    by (simp_all add: get_def key_defs)
  have t: "trim (js ''Prod '') = js ''Prod''"
    by (simp add: trim_def js_def isWhiteSpace_def)
  have e: "get (Some [sqlalchemy_uri \<mapsto> JStr []]) sqlalchemy_uri = JStr []"
    "get None sqlalchemy_uri = JUndefined"
    by (simp_all add: get_def)
  show ?thesis
    using testConnection_calls [of "Some [sqlalchemy_uri \<mapsto> JStr []]"]
      testConnection_calls [of None] testConnection_calls [of ?d]
    by (simp add: g t e name_is_string_def)
qed


section \<open>Whether save is disabled\<close>

lemma trim_idem: "trim (trim s) = trim s"
  by (rule trim_fixed) (rule trim_no_outer_whitespace)

lemma disableSave_typed:
  assumes "name_is_string db" and "uri_is_string db"
  shows "disableSave db =
    Inr (trim (text_of (get db database_name)) = [] \<or> text_of (get db sqlalchemy_uri) = [])"
proof -
  have u: "truthy (get db sqlalchemy_uri) \<longleftrightarrow> text_of (get db sqlalchemy_uri) \<noteq> []"
    using assms(2) by (cases "get db sqlalchemy_uri") (simp_all add: uri_is_string_def)
  show ?thesis
    using assms(1) u
    by (cases "get db database_name")
       (simp_all add: disableSave_def name_is_string_def js_and_def)
qed

lemma set_name_then_uri:
  assumes "name_is_string db"
  shows "\<exists>d. run_calls db
       (onInputChange \<lparr>target_type = js ''text'', target_name = database_name,
          target_checked = c, target_value = n\<rparr>
        @ onInputChange \<lparr>target_type = js ''text'', target_name = sqlalchemy_uri,
          target_checked = c', target_value = u\<rparr>) = Inr (Some d)
     \<and> get (Some d) database_name = JStr (trim n)
     \<and> get (Some d) sqlalchemy_uri = JStr u"
proof -
  let ?a = "inputChange \<lparr>payload_target = None, payload_name = database_name,
     payload_json = JUndefined, payload_type = Some (js ''text''),
     payload_checked = Some c, payload_value = Some n\<rparr>"
  obtain d1 where d1: "dbReducer db ?a = Inr (Some d1)" "d1 database_name = Some (JStr n)"
    using assms by (simp add: dbReducer_def trimmedState_typed opt_str_def)
  have n1: "name_is_string (Some d1)"
    using d1(2) by (simp add: name_is_string_def get_def)
  have g1: "get (Some d1) database_name = JStr n"
    using d1(2) by (simp add: get_def)
  show ?thesis
    using d1(1) n1 g1
    by (simp add: run_calls_def onInputChange_def dbReducer_def [of "Some d1"]
        trimmedState_typed opt_str_def get_def key_defs)
qed

text \<open>
  C3, as the code has it. The URI is set to \<^verbatim>\<open>"x"\<close> and the name to a single space:
  both fields hold non-empty strings, and save is disabled.
\<close>

theorem save_disabled_with_blank_name:
  "and_then
     (run_calls None
        (onInputChange \<lparr>target_type = js ''text'', target_name = sqlalchemy_uri,
           target_checked = False, target_value = js ''x''\<rparr>
         @ onInputChange \<lparr>target_type = js ''text'', target_name = database_name,
           target_checked = False, target_value = js '' ''\<rparr>))
     (read_property database_name) = Inr (JStr (js '' ''))
   \<and> and_then
     (run_calls None
        (onInputChange \<lparr>target_type = js ''text'', target_name = sqlalchemy_uri,
           target_checked = False, target_value = js ''x''\<rparr>
         @ onInputChange \<lparr>target_type = js ''text'', target_name = database_name,
           target_checked = False, target_value = js '' ''\<rparr>))
     (read_property sqlalchemy_uri) = Inr (JStr (js ''x''))
   \<and> and_then
     (run_calls None
        (onInputChange \<lparr>target_type = js ''text'', target_name = sqlalchemy_uri,
           target_checked = False, target_value = js ''x''\<rparr>
         @ onInputChange \<lparr>target_type = js ''text'', target_name = database_name,
           target_checked = False, target_value = js '' ''\<rparr>))
     disableSave = Inr True"
  by (simp add: and_then_def read_property_def run_calls_def onInputChange_def dbReducer_def
      trimmedState_def disableSave_def get_def spread_def js_or_def js_and_def opt_str_def
      key_defs trim_def js_def isWhiteSpace_def)

text \<open>
  C3, amended: for every draft whose name and URI are strings or nullish, save is
  disabled if and only if the trimmed name is empty or the URI is empty; the
  condition is a function of the draft alone. Setting the name to a string that is
  not empty once trimmed, and the URI to a non-empty string, enables save.
\<close>

theorem disableSave_iff:
  assumes "name_is_string db" and "uri_is_string db"
  shows "disableSave db =
      Inr (trim (text_of (get db database_name)) = [] \<or> text_of (get db sqlalchemy_uri) = [])
    \<and> (trim n \<noteq> [] \<and> u \<noteq> [] \<longrightarrow>
         and_then
           (run_calls db
              (onInputChange \<lparr>target_type = js ''text'', target_name = database_name,
                 target_checked = c, target_value = n\<rparr>
               @ onInputChange \<lparr>target_type = js ''text'', target_name = sqlalchemy_uri,
                 target_checked = c', target_value = u\<rparr>))
           disableSave = Inr False)"
proof -
  obtain d where d: "run_calls db
       (onInputChange \<lparr>target_type = js ''text'', target_name = database_name,
          target_checked = c, target_value = n\<rparr>
        @ onInputChange \<lparr>target_type = js ''text'', target_name = sqlalchemy_uri,
          target_checked = c', target_value = u\<rparr>) = Inr (Some d)"
    "get (Some d) database_name = JStr (trim n)"
    "get (Some d) sqlalchemy_uri = JStr u"
    using set_name_then_uri [OF assms(1)] by blast
  have "disableSave (Some d) = Inr (trim n = [] \<or> u = [])"
    using d(2,3) by (simp add: disableSave_typed name_is_string_def uri_is_string_def trim_idem)
  with d(1) show ?thesis
    using disableSave_typed [OF assms] by (simp add: and_then_def)
qed

theorem disableSave_iff_witness:
  "name_is_string None \<and> uri_is_string None
   \<and> disableSave None = Inr True
   \<and> trim (js ''My DB'') \<noteq> [] \<and> js ''postgresql://u:p@host/db'' \<noteq> []
   \<and> and_then
        (run_calls None
           (onInputChange \<lparr>target_type = js ''text'', target_name = database_name,
              target_checked = False, target_value = js ''My DB''\<rparr>
            @ onInputChange \<lparr>target_type = js ''text'', target_name = sqlalchemy_uri,
              target_checked = False, target_value = js ''postgresql://u:p@host/db''\<rparr>))
        disableSave = Inr False"
proof -
  have a: "name_is_string None" by simp
  have b: "uri_is_string None" by (simp add: uri_is_string_def get_def)
  have t: "trim (js ''My DB'') = js ''My DB''"
    by (simp add: trim_def js_def isWhiteSpace_def)
  have g: "get None database_name = JUndefined" "get None sqlalchemy_uri = JUndefined"
    by (simp_all add: get_def)
  show ?thesis
    using a b
      disableSave_iff [OF a b, of "js ''My DB''" "js ''postgresql://u:p@host/db''" False False]
    by (simp add: t g)
qed


end
